theory Spec2Isabelle
  imports Complex_Main
begin

section \<open>Stereo geometry of \<open>app.py\<close>\<close>

text \<open>
  The two request handlers of \<open>app.py\<close>, \<open>calculate_stereo\<close> and \<open>calculate_size\<close>,
  and the helper \<open>get_scaled_intrinsics\<close> they share.

  Modelling conventions.
  \<^item> A Python \<open>float\<close> is modelled as a \<open>real\<close>: arithmetic is exact, there is no
    rounding error, no overflow, no infinity and no NaN. Every statement below is a
    statement about the formulas of the code in exact arithmetic.
  \<^item> The image dimensions are Python integers (\<open>int\<close>); \<open>/\<close> is Python's true division,
    which converts both operands to \<open>float\<close>.
  \<^item> The JSON body of a request is taken as well formed: every key the handler reads
    is present and holds a number. The fields of the body are the arguments of the
    model.
  \<^item> A handler either returns its success payload (\<open>Inr\<close>) or fails (\<open>Inl\<close>): with the
    error payload of the disparity check, or with Python's \<open>ZeroDivisionError\<close>, which
    a float division by \<open>0.0\<close> raises.
\<close>

subsection \<open>Constants\<close>

definition ORIG_FX :: real where "ORIG_FX = 991.396"
definition ORIG_FY :: real where "ORIG_FY = 991.628"
definition ORIG_CX :: real where "ORIG_CX = 671.244"
definition ORIG_CY :: real where "ORIG_CY = 371.286"
definition CALIB_W :: int where "CALIB_W = 1280"
definition CALIB_H :: int where "CALIB_H = 720"
definition BASELINE :: real where "BASELINE = 10"

subsection \<open>Data\<close>

text \<open>A pixel point: the JSON object with the keys \<open>x\<close> and \<open>y\<close>.\<close>

record point =
  pt_x :: real
  pt_y :: real

text \<open>
  \<open>DisparityTooSmall\<close> is the payload \<open>{"error": "Disparity is too small ..."}\<close> that
  \<open>calculate_stereo\<close> returns; \<open>ZeroDivisionError\<close> is the exception of a division by zero.
\<close>

datatype failure = DisparityTooSmall | ZeroDivisionError

text \<open>The success payload of \<open>calculate_stereo\<close>: the keys \<open>Z\<close> and \<open>disparity\<close>.\<close>

record stereo_result =
  stereo_Z :: real
  stereo_disparity :: real

text \<open>The success payload of \<open>calculate_size\<close>: the keys \<open>size_cm\<close>, \<open>dX\<close> and \<open>dY\<close>.\<close>

record size_result =
  size_cm :: real
  dX :: real
  dY :: real

subsection \<open>Python primitives\<close>

text \<open>Float division: a zero divisor raises.\<close>

definition py_div :: "real \<Rightarrow> real \<Rightarrow> failure + real" where
  "py_div a b = (if b = 0 then Inl ZeroDivisionError else Inr (a / b))"

text \<open>
  \<open>round(v, ndigits)\<close>: the value with \<open>ndigits\<close> decimals nearest to \<open>v\<close>, a tie going
  to the even last digit.
\<close>

definition round_half_even :: "real \<Rightarrow> int" where
  "round_half_even v =
     (let f = \<lfloor>v\<rfloor>; r = v - of_int f
      in if r < 1 / 2 then f
         else if 1 / 2 < r then f + 1
         else if even f then f else f + 1)"

definition py_round :: "real \<Rightarrow> nat \<Rightarrow> real" where
  "py_round v ndigits = of_int (round_half_even (v * 10 ^ ndigits)) / 10 ^ ndigits"

subsection \<open>The intrinsics scaler\<close>

definition get_scaled_intrinsics :: "int \<Rightarrow> int \<Rightarrow> real \<times> real \<times> real \<times> real" where
  "get_scaled_intrinsics img_w img_h =
     (let scale_x = of_int img_w / of_int CALIB_W;
          scale_y = of_int img_h / of_int CALIB_H;
          fx = ORIG_FX * scale_x;
          fy = ORIG_FY * scale_y;
          cx = ORIG_CX * scale_x;
          cy = ORIG_CY * scale_y
      in (fx, fy, cx, cy))"

subsection \<open>Depth from disparity\<close>

text \<open>The local \<open>disparity\<close> of \<open>calculate_stereo\<close>.\<close>

definition disparity :: "point \<Rightarrow> point \<Rightarrow> real" where
  "disparity p_left p_right = \<bar>pt_x p_left - pt_x p_right\<bar>"

text \<open>
  The local \<open>calculated_Z\<close> of \<open>calculate_stereo\<close>: the handler up to the formula
  \<open>Z = (f * B) / d\<close>, before the payload is built.
\<close>

definition calculated_Z :: "point \<Rightarrow> point \<Rightarrow> int \<Rightarrow> int \<Rightarrow> failure + real" where
  "calculated_Z p_left p_right img_w img_h =
     (case get_scaled_intrinsics img_w img_h of (fx, fy, cx, cy) \<Rightarrow>
        if disparity p_left p_right < 1 then Inl DisparityTooSmall
        else py_div (fx * BASELINE) (disparity p_left p_right))"

definition calculate_stereo :: "point \<Rightarrow> point \<Rightarrow> int \<Rightarrow> int \<Rightarrow> failure + stereo_result" where
  "calculate_stereo p_left p_right img_w img_h =
     (case calculated_Z p_left p_right img_w img_h of
        Inl e \<Rightarrow> Inl e
      | Inr z \<Rightarrow>
          Inr \<lparr>stereo_Z = py_round z 4,
               stereo_disparity = py_round (disparity p_left p_right) 2\<rparr>)"

subsection \<open>Size from depth\<close>

text \<open>
  The locals \<open>dx\<close>, \<open>dy\<close> and \<open>real_size\<close> of \<open>calculate_size\<close>, in this order: the
  handler up to the Euclidean distance, before the payload is built. The four divisions
  are evaluated in the order of the source.
\<close>

definition real_size :: "point \<Rightarrow> point \<Rightarrow> real \<Rightarrow> int \<Rightarrow> int \<Rightarrow> failure + real \<times> real \<times> real" where
  "real_size p1 p2 Z img_w img_h =
     (case get_scaled_intrinsics img_w img_h of (fx, fy, cx, cy) \<Rightarrow>
       (case py_div ((pt_x p1 - cx) * Z) fx of Inl e \<Rightarrow> Inl e | Inr X1 \<Rightarrow>
         (case py_div ((pt_y p1 - cy) * Z) fy of Inl e \<Rightarrow> Inl e | Inr Y1 \<Rightarrow>
           (case py_div ((pt_x p2 - cx) * Z) fx of Inl e \<Rightarrow> Inl e | Inr X2 \<Rightarrow>
             (case py_div ((pt_y p2 - cy) * Z) fy of Inl e \<Rightarrow> Inl e | Inr Y2 \<Rightarrow>
               (let dx = X2 - X1;
                    dy = Y2 - Y1
                in Inr (dx, dy, sqrt (dx\<^sup>2 + dy\<^sup>2))))))))"

definition calculate_size :: "point \<Rightarrow> point \<Rightarrow> real \<Rightarrow> int \<Rightarrow> int \<Rightarrow> failure + size_result" where
  "calculate_size p1 p2 Z img_w img_h =
     (case real_size p1 p2 Z img_w img_h of
        Inl e \<Rightarrow> Inl e
      | Inr (dx, dy, s) \<Rightarrow>
          Inr \<lparr>size_cm = py_round s 4, dX = py_round \<bar>dx\<bar> 4, dY = py_round \<bar>dy\<bar> 4\<rparr>)"


section \<open>Auxiliary facts\<close>

lemmas const_defs =
  ORIG_FX_def ORIG_FY_def ORIG_CX_def ORIG_CY_def CALIB_W_def CALIB_H_def BASELINE_def

lemma intrinsics_eq:
  "get_scaled_intrinsics img_w img_h =
     (ORIG_FX * (of_int img_w / of_int CALIB_W), ORIG_FY * (of_int img_h / of_int CALIB_H),
      ORIG_CX * (of_int img_w / of_int CALIB_W), ORIG_CY * (of_int img_h / of_int CALIB_H))"
  by (simp add: get_scaled_intrinsics_def Let_def)


lemma fx_zero_iff: "ORIG_FX * (of_int img_w / of_int CALIB_W) = 0 \<longleftrightarrow> img_w = 0"
  by (simp add: ORIG_FX_def CALIB_W_def)

lemma fy_zero_iff: "ORIG_FY * (of_int img_h / of_int CALIB_H) = 0 \<longleftrightarrow> img_h = 0"
  by (simp add: ORIG_FY_def CALIB_H_def)


subsection \<open>Rounding\<close>

lemma round_half_even_0: "round_half_even 0 = 0"
  by (simp add: round_half_even_def)

lemma py_round_0: "py_round 0 n = 0"
  by (simp add: py_round_def round_half_even_0)




subsection \<open>The handlers before the payload\<close>



lemma real_size_ok:
  "img_w \<noteq> 0 \<Longrightarrow> img_h \<noteq> 0 \<Longrightarrow> get_scaled_intrinsics img_w img_h = (fx, fy, cx, cy) \<Longrightarrow>
   real_size p1 p2 Z img_w img_h =
     Inr ((pt_x p2 - cx) * Z / fx - (pt_x p1 - cx) * Z / fx,
          (pt_y p2 - cy) * Z / fy - (pt_y p1 - cy) * Z / fy,
          sqrt (((pt_x p2 - cx) * Z / fx - (pt_x p1 - cx) * Z / fx)\<^sup>2 +
                ((pt_y p2 - cy) * Z / fy - (pt_y p1 - cy) * Z / fy)\<^sup>2))"
  using fx_zero_iff [of img_w] fy_zero_iff [of img_h]
  by (auto simp add: real_size_def intrinsics_eq py_div_def Let_def)

lemma real_size_zero_dim:
  "img_w = 0 \<or> img_h = 0 \<Longrightarrow> real_size p1 p2 Z img_w img_h = Inl ZeroDivisionError"
  using fx_zero_iff [of img_w] fy_zero_iff [of img_h]
  by (auto simp add: real_size_def intrinsics_eq py_div_def Let_def)


section \<open>Depth recovery\<close>






text \<open>
  Claim C5, as amended. With \<open>image_width = 0\<close>, \<open>calculate_stereo\<close> checks nothing about
  the dimensions: it fails with \<open>DisparityTooSmall\<close> when the disparity is below \<open>1.0\<close>, and
  otherwise it returns the depth \<open>0.0\<close> together with the rounded disparity.
\<close>

theorem calculate_stereo_zero_width:
  "calculate_stereo p_left p_right 0 img_h =
     (if \<bar>pt_x p_left - pt_x p_right\<bar> < 1 then Inl DisparityTooSmall
      else Inr \<lparr>stereo_Z = 0,
                stereo_disparity = py_round \<bar>pt_x p_left - pt_x p_right\<bar> 2\<rparr>)"
  by (simp add: calculate_stereo_def calculated_Z_def intrinsics_eq py_div_def disparity_def
      py_round_0)

text \<open>
  C5 as stated fails: on an image of width 0 the two clicks of the reference scenario give
  a success payload with the depth \<open>0.0\<close>, and no error.
\<close>

theorem calculate_stereo_zero_width_counterexample:
  "calculate_stereo \<lparr>pt_x = 400, pt_y = 300\<rparr> \<lparr>pt_x = 380, pt_y = 300\<rparr> 0 720 =
     Inr \<lparr>stereo_Z = 0, stereo_disparity = 20\<rparr>"
  by (simp add: calculate_stereo_def calculated_Z_def intrinsics_eq py_div_def disparity_def
      py_round_def round_half_even_def Let_def)







section \<open>The intrinsics scaler\<close>

text \<open>
  Claim C4. \<open>get_scaled_intrinsics\<close> returns \<open>fx = ORIG_FX * (image_width / CALIB_W)\<close>,
  \<open>fy = ORIG_FY * (image_height / CALIB_H)\<close>, \<open>cx = ORIG_CX * (image_width / CALIB_W)\<close> and
  \<open>cy = ORIG_CY * (image_height / CALIB_H)\<close>, with the reference values \<open>991.396\<close>,
  \<open>991.628\<close>, \<open>671.244\<close>, \<open>371.286\<close> at 1280x720; doubling the image width doubles \<open>fx\<close> and
  \<open>cx\<close> and leaves \<open>fy\<close> and \<open>cy\<close> unchanged.
\<close>

theorem get_scaled_intrinsics_linear:
  "get_scaled_intrinsics img_w img_h =
     (ORIG_FX * (of_int img_w / of_int CALIB_W), ORIG_FY * (of_int img_h / of_int CALIB_H),
      ORIG_CX * (of_int img_w / of_int CALIB_W), ORIG_CY * (of_int img_h / of_int CALIB_H)) \<and>
   ORIG_FX = 991.396 \<and> ORIG_FY = 991.628 \<and> ORIG_CX = 671.244 \<and> ORIG_CY = 371.286 \<and>
   CALIB_W = 1280 \<and> CALIB_H = 720 \<and>
   get_scaled_intrinsics (2 * img_w) img_h =
     (case get_scaled_intrinsics img_w img_h of (fx, fy, cx, cy) \<Rightarrow> (2 * fx, fy, 2 * cx, cy))"
  by (simp add: intrinsics_eq const_defs)

section \<open>Size recovery\<close>




text \<open>
  Claim C8. For positive image dimensions, every point \<open>p\<close> and every depth \<open>Z\<close>,
  \<open>calculate_size\<close> with \<open>p1 = p2 = p\<close> returns the size \<open>0.0\<close> and \<open>dX = dY = 0.0\<close>.
\<close>

theorem calculate_size_same_point:
  "0 < img_w \<Longrightarrow> 0 < img_h \<Longrightarrow>
   calculate_size p p Z img_w img_h = Inr \<lparr>size_cm = 0, dX = 0, dY = 0\<rparr>"
proof -
  assume "0 < img_w" and "0 < img_h"
  then have nz: "img_w \<noteq> 0" "img_h \<noteq> 0" by simp_all
  obtain fx fy cx cy where i: "get_scaled_intrinsics img_w img_h = (fx, fy, cx, cy)"
    by (cases "get_scaled_intrinsics img_w img_h") auto
  show ?thesis
    by (simp add: calculate_size_def real_size_ok [OF nz i] py_round_0)
qed

theorem calculate_size_same_point_witness:
  "(0::int) < 1280 \<and> (0::int) < 720 \<and>
   calculate_size \<lparr>pt_x = 400, pt_y = 300\<rparr> \<lparr>pt_x = 400, pt_y = 300\<rparr> 495.698 1280 720 =
     Inr \<lparr>size_cm = 0, dX = 0, dY = 0\<rparr>"
  using calculate_size_same_point [of 1280 720 "\<lparr>pt_x = 400, pt_y = 300\<rparr>" "495.698"]
  by simp

text \<open>
  Claim C9. \<open>calculate_size\<close> is symmetric in its two points: for all points, depths and
  image dimensions, exchanging \<open>p1\<close> and \<open>p2\<close> gives the same outcome, hence the same size,
  \<open>dX\<close> and \<open>dY\<close>.
\<close>

theorem calculate_size_symmetric:
  "calculate_size p1 p2 Z img_w img_h = calculate_size p2 p1 Z img_w img_h"
proof (cases "img_w = 0 \<or> img_h = 0")
  case True
  then show ?thesis by (simp add: calculate_size_def real_size_zero_dim)
next
  case False
  then have nz: "img_w \<noteq> 0" "img_h \<noteq> 0" by simp_all
  obtain fx fy cx cy where i: "get_scaled_intrinsics img_w img_h = (fx, fy, cx, cy)"
    by (cases "get_scaled_intrinsics img_w img_h") auto
  show ?thesis
    by (simp add: calculate_size_def real_size_ok [OF nz i] power2_commute abs_minus_commute)
qed



end
